theory Spec2Isabelle
  imports Complex_Main
begin

section \<open>Floating-point values\<close>

text \<open>
  The solvers of \<^verbatim>\<open>krylov_subspace_algorithms.py\<close> compute on numpy arrays and
  numpy scalars. A number is modelled as a finite real or one of the three special values
  of IEEE 754. Arithmetic on finite values is exact (rounding and overflow are left out);
  the special values follow IEEE 754 as numpy applies it: a division by zero yields an
  infinity or NaN instead of raising, NaN is absorbing, and every comparison with NaN is
  false. Zero carries no sign: a finite non-zero value divided by zero takes the sign of
  the numerator.
\<close>

datatype fl = Fin real | PInf | NInf | NaN

instantiation fl :: "{zero,one,plus,uminus,minus,times,inverse}"
begin

definition zero_fl :: fl where
  "zero_fl = Fin 0"

definition one_fl :: fl where
  "one_fl = Fin 1"

fun plus_fl :: "fl \<Rightarrow> fl \<Rightarrow> fl" where
  "NaN + y = NaN"
| "x + NaN = NaN"
| "PInf + NInf = NaN"
| "NInf + PInf = NaN"
| "PInf + y = PInf"
| "x + PInf = PInf"
| "NInf + y = NInf"
| "x + NInf = NInf"
| "Fin a + Fin b = Fin (a + b)"

fun uminus_fl :: "fl \<Rightarrow> fl" where
  "- NaN = NaN"
| "- PInf = NInf"
| "- NInf = PInf"
| "- Fin a = Fin (- a)"

definition minus_fl :: "fl \<Rightarrow> fl \<Rightarrow> fl" where
  "minus_fl x y = x + (- y)"

fun times_fl :: "fl \<Rightarrow> fl \<Rightarrow> fl" where
  "NaN * y = NaN"
| "x * NaN = NaN"
| "Fin a * Fin b = Fin (a * b)"
| "Fin a * PInf = (if a = 0 then NaN else if 0 < a then PInf else NInf)"
| "Fin a * NInf = (if a = 0 then NaN else if 0 < a then NInf else PInf)"
| "PInf * Fin b = (if b = 0 then NaN else if 0 < b then PInf else NInf)"
| "NInf * Fin b = (if b = 0 then NaN else if 0 < b then NInf else PInf)"
| "PInf * PInf = PInf"
| "PInf * NInf = NInf"
| "NInf * PInf = NInf"
| "NInf * NInf = PInf"

fun divide_fl :: "fl \<Rightarrow> fl \<Rightarrow> fl" where
  "NaN div y = NaN"
| "x div NaN = NaN"
| "Fin a div Fin b =
     (if b = 0 then (if a = 0 then NaN else if 0 < a then PInf else NInf)
      else Fin (a / b))"
| "Fin a div PInf = Fin 0"
| "Fin a div NInf = Fin 0"
| "PInf div Fin b = (if b < 0 then NInf else PInf)"
| "NInf div Fin b = (if b < 0 then PInf else NInf)"
| "PInf div PInf = NaN"
| "PInf div NInf = NaN"
| "NInf div PInf = NaN"
| "NInf div NInf = NaN"

definition inverse_fl :: "fl \<Rightarrow> fl" where
  "inverse_fl x = 1 div x"

instance ..

end

text \<open>\<^verbatim>\<open>x**2\<close> on a numpy scalar.\<close>

definition sq :: "fl \<Rightarrow> fl" where
  "sq x = x * x"

text \<open>\<^verbatim>\<open>np.sqrt\<close>: NaN for a negative argument.\<close>

fun fl_sqrt :: "fl \<Rightarrow> fl" where
  "fl_sqrt NaN = NaN"
| "fl_sqrt PInf = PInf"
| "fl_sqrt NInf = NaN"
| "fl_sqrt (Fin a) = (if a < 0 then NaN else Fin (sqrt a))"

text \<open>The comparison \<^verbatim>\<open>x > y\<close>.\<close>

fun fl_gt :: "fl \<Rightarrow> fl \<Rightarrow> bool" where
  "fl_gt NaN y = False"
| "fl_gt x NaN = False"
| "fl_gt (Fin a) (Fin b) = (b < a)"
| "fl_gt PInf PInf = False"
| "fl_gt PInf y = True"
| "fl_gt NInf y = False"
| "fl_gt (Fin a) PInf = False"
| "fl_gt (Fin a) NInf = True"

fun is_nan :: "fl \<Rightarrow> bool" where
  "is_nan NaN = True"
| "is_nan x = False"

fun is_inf :: "fl \<Rightarrow> bool" where
  "is_inf PInf = True"
| "is_inf NInf = True"
| "is_inf x = False"

section \<open>Arrays\<close>

text \<open>
  An array is the list of its elements (\<^verbatim>\<open>ravel()\<close>). The operators of the source
  combine arrays of one shape only; where numpy would reject two shapes, \<open>map2\<close> cuts
  to the shorter list, and no theorem below relies on that.
\<close>

type_synonym vec = "fl list"

definition vadd :: "vec \<Rightarrow> vec \<Rightarrow> vec" where
  "vadd a b = map2 (+) a b"

definition vsub :: "vec \<Rightarrow> vec \<Rightarrow> vec" where
  "vsub a b = map2 (-) a b"

definition smul :: "fl \<Rightarrow> vec \<Rightarrow> vec" where
  "smul c a = map ((*) c) a"

definition sdiv :: "vec \<Rightarrow> fl \<Rightarrow> vec" where
  "sdiv a c = map (\<lambda>x. x / c) a"

text \<open>\<^verbatim>\<open>np.linalg.norm(a.ravel(), 2)\<close>.\<close>

definition fl_norm :: "vec \<Rightarrow> fl" where
  "fl_norm a = fl_sqrt (foldr (\<lambda>x acc. x * x + acc) a 0)"

text \<open>
  A numeric attribute is a numpy scalar (or Python number) or an array; \<open>hbar\<close> of LSMR
  starts as the number 0 and becomes an array in the first iteration, by broadcasting.
\<close>

datatype npval = Scalar fl | NdArray vec

fun bscale :: "fl \<Rightarrow> npval \<Rightarrow> npval" where
  "bscale c (Scalar x) = Scalar (c * x)"
| "bscale c (NdArray a) = NdArray (smul c a)"

fun vsub_b :: "vec \<Rightarrow> npval \<Rightarrow> vec" where
  "vsub_b h (Scalar x) = map (\<lambda>a. a - x) h"
| "vsub_b h (NdArray a) = vsub h a"

section \<open>The collaborators of the solvers\<close>

text \<open>
  The projection \<^verbatim>\<open>Ax\<close> and the backprojection \<^verbatim>\<open>Atb\<close> (with the geometry,
  the angles, the projector kind and the GPU ids fixed), the clock and the
  quality-measurement hook of the base class are not part of the file; they are
  parameters. \<open>default_timer e k\<close> is the reading of the \<open>k\<close>-th call of the clock.
  \<open>error_measurement\<close> gets the previous and the current solution and the iteration
  index and may change the attributes of the base class only.
\<close>

record env =
  Ax :: "vec \<Rightarrow> vec"
  Atb :: "vec \<Rightarrow> vec"
  default_timer :: "nat \<Rightarrow> real"
  error_measurement ::
    "vec \<Rightarrow> vec \<Rightarrow> nat \<Rightarrow> (string \<times> npval option) list \<Rightarrow> (string \<times> npval option) list"

text \<open>
  The attributes that \<^verbatim>\<open>IterativeReconAlg.__init__\<close> sets and the solvers read.
  \<open>Quameasopts\<close> holds whether the attribute is not \<^verbatim>\<open>None\<close>; \<open>other_attrs\<close> are the
  remaining attributes of the object, in the order of \<^verbatim>\<open>__dict__\<close>, with \<open>None\<close> for a
  value that is not numeric. \<open>l2l\<close> and the list \<open>avgtime\<close> are created by
  \<^verbatim>\<open>run_main_iter\<close>. \<open>ax_calls\<close> and \<open>atb_calls\<close> are not attributes of the program:
  they count the calls of the two operators.
\<close>

record recon =
  proj :: vec
  res :: vec
  niter :: nat
  verbose :: bool
  Quameasopts :: bool
  lmbda :: fl
  other_attrs :: "(string \<times> npval option) list"
  l2l :: vec
  avgtime :: "real list"
  ax_calls :: nat
  atb_calls :: nat

definition call_Ax :: "env \<Rightarrow> vec \<Rightarrow> 'a recon_scheme \<Rightarrow> vec \<times> 'a recon_scheme" where
  "call_Ax e x s = (Ax e x, s\<lparr>ax_calls := Suc (ax_calls s)\<rparr>)"

definition call_Atb :: "env \<Rightarrow> vec \<Rightarrow> 'a recon_scheme \<Rightarrow> vec \<times> 'a recon_scheme" where
  "call_Atb e y s = (Atb e y, s\<lparr>atb_calls := Suc (atb_calls s)\<rparr>)"

text \<open>\<^verbatim>\<open>if self.Quameasopts is not None: self.error_measurement(res_prev, i)\<close>\<close>

definition measure_quality :: "env \<Rightarrow> vec \<Rightarrow> nat \<Rightarrow> 'a recon_scheme \<Rightarrow> 'a recon_scheme" where
  "measure_quality e res_prev i s =
     (if Quameasopts s
      then s\<lparr>other_attrs := error_measurement e res_prev (res s) i (other_attrs s)\<rparr>
      else s)"

text \<open>
  \<^verbatim>\<open>avgtic = default_timer(); ...; avgtoc = default_timer();\<close>
  \<^verbatim>\<open>avgtime.append(abs(avgtic - avgtoc))\<close> in iteration \<open>i\<close>.
\<close>

definition record_time :: "env \<Rightarrow> nat \<Rightarrow> 'a recon_scheme \<Rightarrow> 'a recon_scheme" where
  "record_time e i s =
     s\<lparr>avgtime := avgtime s @ [\<bar>default_timer e (2 * i) - default_timer e (2 * i + 1)\<bar>]\<rparr>"

text \<open>
  The first two lines of each \<^verbatim>\<open>run_main_iter\<close>:
  \<^verbatim>\<open>self.l2l = np.zeros((1, self.niter), dtype=np.float32); avgtime = []\<close>.
\<close>

definition start_history :: "'a recon_scheme \<Rightarrow> 'a recon_scheme" where
  "start_history s = s\<lparr>l2l := replicate (niter s) 0, avgtime := []\<rparr>"

text \<open>
  The attributes of the base class as entries of \<^verbatim>\<open>__dict__\<close>. Their order is
  that of the assignments in the constructor of the base class, which is not part of the
  file: the one chosen here decides only which of several corrupt attributes an error
  names.
\<close>

definition recon_dict :: "'a recon_scheme \<Rightarrow> (string \<times> npval option) list" where
  "recon_dict s =
     [(''proj'', Some (NdArray (proj s))), (''res'', Some (NdArray (res s))),
      (''niter'', None), (''verbose'', None), (''Quameasopts'', None),
      (''lmbda'', Some (Scalar (lmbda s)))] @ other_attrs s"

datatype py_error = ValueError_nan string nat | ZeroDivisionError

text \<open>
  What one pass through a loop body does: it reaches the end of the body, it returns a
  value from \<^verbatim>\<open>run_main_iter\<close>, or it raises. The state of the object is kept in
  each case.
\<close>

datatype 's iter_result = Continue 's | Return vec 's | Raise py_error 's

fun raises :: "'s iter_result \<Rightarrow> bool" where
  "raises (Raise err s) = True"
| "raises r = False"


section \<open>CGLS\<close>

record cgls = recon +
  re_init_at_iteration :: nat
  cgls_r :: vec
  cgls_p :: vec
  cgls_gamma :: fl

text \<open>
  \<^verbatim>\<open>CGLS.__init__\<close>, lines 33 to 39, applied to the object as the constructor of the
  base class leaves it.
\<close>

definition CGLS_init :: "env \<Rightarrow> recon \<Rightarrow> cgls" where
  "CGLS_init e b =
     (let (ax, b) = call_Ax e (res b) b;
          r = vsub (proj b) ax;
          (p, b) = call_Atb e r b;
          p_norm = fl_norm p
      in recon.extend b
           (cgls.fields 0 r p (p_norm * p_norm)))"

text \<open>\<^verbatim>\<open>reinitialise_cgls\<close>, lines 41 to 45.\<close>

definition reinitialise_cgls :: "env \<Rightarrow> cgls \<Rightarrow> cgls" where
  "reinitialise_cgls e s =
     (let (ax, s) = call_Ax e (res s) s;
          r = vsub (proj s) ax;
          (p, s) = call_Atb e r s;
          p_norm = fl_norm p
      in s\<lparr>cgls_r := r, cgls_p := p, cgls_gamma := p_norm * p_norm\<rparr>)"

text \<open>Lines 57 to 63: the step, which yields \<open>alpha\<close> and \<open>q\<close> for the rest of the body.\<close>

definition CGLS_step :: "env \<Rightarrow> nat \<Rightarrow> cgls \<Rightarrow> fl \<times> vec \<times> cgls" where
  "CGLS_step e i s =
     (let (q, s) = call_Ax e (cgls_p s) s;
          q_norm = fl_norm q;
          alpha = cgls_gamma s / (q_norm * q_norm);
          s = s\<lparr>res := vadd (res s) (smul alpha (cgls_p s))\<rparr>
      in (alpha, q, record_time e i s))"

text \<open>
  Lines 64 to 69: the scan of \<^verbatim>\<open>self.__dict__\<close>, in insertion order, for the first
  attribute that is an \<^verbatim>\<open>np.ndarray\<close> and holds a NaN.
\<close>

fun holds_nan :: "npval option \<Rightarrow> bool" where
  "holds_nan (Some (NdArray a)) = list_ex is_nan a"
| "holds_nan v = False"

fun nan_scan :: "(string \<times> npval option) list \<Rightarrow> string option" where
  "nan_scan [] = None"
| "nan_scan ((item, v) # d) = (if holds_nan v then Some item else nan_scan d)"

definition CGLS_dict :: "cgls \<Rightarrow> (string \<times> npval option) list" where
  "CGLS_dict s =
     [(''re_init_at_iteration'', None)] @ recon_dict s @
     [(''__r__'', Some (NdArray (cgls_r s))), (''__p__'', Some (NdArray (cgls_p s))),
      (''__gamma__'', Some (Scalar (cgls_gamma s))), (''l2l'', Some (NdArray (l2l s)))]"

text \<open>
  Lines 71 to 74: the residual norm of the new solution, stored in slot \<open>i\<close> (the
  conversion to \<^verbatim>\<open>float32\<close> is a rounding and is left out).
\<close>

definition CGLS_residual :: "env \<Rightarrow> nat \<Rightarrow> cgls \<Rightarrow> cgls" where
  "CGLS_residual e i s =
     (let (ax, s) = call_Ax e (res s) s;
          aux = vsub (proj s) ax
      in s\<lparr>l2l := (l2l s)[i := fl_norm aux]\<rparr>)"

text \<open>Line 75: the divergence trigger.\<close>

definition CGLS_diverged :: "nat \<Rightarrow> cgls \<Rightarrow> bool" where
  "CGLS_diverged i s = (0 < i \<and> fl_gt (l2l s ! i) (l2l s ! (i - 1)))"

text \<open>Lines 82 to 84: the restart.\<close>

definition CGLS_restart :: "env \<Rightarrow> nat \<Rightarrow> fl \<Rightarrow> cgls \<Rightarrow> cgls" where
  "CGLS_restart e i alpha s =
     (let s = s\<lparr>res := vsub (res s) (smul alpha (cgls_p s))\<rparr>;
          s = reinitialise_cgls e s
      in s\<lparr>re_init_at_iteration := i\<rparr>)"

text \<open>
  Lines 86 to 96: the update of \<open>r\<close>, \<open>gamma\<close> and \<open>p\<close>. The local variable \<open>s\<close> of
  the source is \<open>sv\<close> here.
\<close>

definition CGLS_update :: "env \<Rightarrow> nat \<Rightarrow> vec \<Rightarrow> fl \<Rightarrow> vec \<Rightarrow> cgls \<Rightarrow> cgls" where
  "CGLS_update e i res_prev alpha q s =
     (let s = s\<lparr>cgls_r := vsub (cgls_r s) (smul alpha q)\<rparr>;
          (sv, s) = call_Atb e (cgls_r s) s;
          s_norm = fl_norm sv;
          gamma1 = s_norm * s_norm;
          beta = gamma1 / cgls_gamma s;
          s = s\<lparr>cgls_gamma := gamma1\<rparr>;
          s = s\<lparr>cgls_p := vadd sv (smul beta (cgls_p s))\<rparr>
      in measure_quality e res_prev i s)"

text \<open>
  The body of the loop, lines 52 to 96, for the index \<open>i\<close>. After the restart of lines
  82 to 84 control reaches line 86 as it does when no restart took place. The progress
  report and the messages of verbose mode do not touch the object and are left out.
\<close>

definition CGLS_iter :: "env \<Rightarrow> nat \<Rightarrow> cgls \<Rightarrow> cgls iter_result" where
  "CGLS_iter e i s =
     (let res_prev = res s;
          (alpha, q, s) = CGLS_step e i s
      in case nan_scan (CGLS_dict s) of
           Some item \<Rightarrow> Raise (ValueError_nan item i) s
         | None \<Rightarrow>
            (let s = CGLS_residual e i s
             in if CGLS_diverged i s \<and> re_init_at_iteration s + 1 = i
                then Return (res s) s
                else Continue
                       (CGLS_update e i res_prev alpha q
                          (if CGLS_diverged i s then CGLS_restart e i alpha s else s))))"

text \<open>
  The object after lines 57 to 63 of iteration \<open>i\<close>, and whether the divergence trigger
  of line 75 fires in iteration \<open>i\<close> when the scan lets the iteration go on.
\<close>

definition CGLS_after_step :: "env \<Rightarrow> nat \<Rightarrow> cgls \<Rightarrow> cgls" where
  "CGLS_after_step e i s = snd (snd (CGLS_step e i s))"

definition CGLS_triggered :: "env \<Rightarrow> nat \<Rightarrow> cgls \<Rightarrow> bool" where
  "CGLS_triggered e i s = CGLS_diverged i (CGLS_residual e i (CGLS_after_step e i s))"

text \<open>
  \<^verbatim>\<open>for i in range(self.niter)\<close>: the bound \<open>n\<close> is read once. After the loop,
  lines 98 to 103 divide \<^verbatim>\<open>sum(avgtime)\<close> by \<^verbatim>\<open>len(avgtime)\<close> in verbose mode. The
  result is the error raised, or the value returned (\<open>None\<close> when the method runs to its
  end), with the object.
\<close>

definition CGLS_report :: "cgls \<Rightarrow> (py_error + vec option) \<times> cgls" where
  "CGLS_report s =
     (if verbose s \<and> length (avgtime s) = 0 then (Inl ZeroDivisionError, s)
      else (Inr None, s))"

function CGLS_loop :: "env \<Rightarrow> nat \<Rightarrow> nat \<Rightarrow> cgls \<Rightarrow> (py_error + vec option) \<times> cgls" where
  "CGLS_loop e n i s =
     (if i < n
      then (case CGLS_iter e i s of
              Continue s' \<Rightarrow> CGLS_loop e n (Suc i) s'
            | Return x s' \<Rightarrow> (Inr (Some x), s')
            | Raise err s' \<Rightarrow> (Inl err, s'))
      else CGLS_report s)"
  by pat_completeness auto
termination
  by (relation "measure (\<lambda>(e, n, i, s). n - i)") auto

definition CGLS_run_main_iter :: "env \<Rightarrow> cgls \<Rightarrow> (py_error + vec option) \<times> cgls" where
  "CGLS_run_main_iter e s = CGLS_loop e (niter s) 0 (start_history s)"

section \<open>LSQR\<close>

record lsqr = recon +
  lsqr_re_init_at_iteration :: nat
  lsqr_u :: vec
  lsqr_beta :: fl
  lsqr_phibar :: fl
  lsqr_v :: vec
  lsqr_alpha :: fl
  lsqr_rhobar :: fl
  lsqr_w :: vec

text \<open>\<^verbatim>\<open>LSQR.__init__\<close>, lines 119 to 137.\<close>

definition LSQR_init :: "env \<Rightarrow> recon \<Rightarrow> lsqr" where
  "LSQR_init e b =
     (let (ax, b) = call_Ax e (res b) b;
          u = vsub (proj b) ax;
          normr = fl_norm u;
          u = sdiv u normr;
          beta = normr;
          phibar = normr;
          (v, b) = call_Atb e u b;
          alpha = fl_norm v;
          v = sdiv v alpha;
          rhobar = alpha;
          w = v
      in recon.extend b (lsqr.fields 0 u beta phibar v alpha rhobar w))"

text \<open>Lines 149 to 157, steps (3)(a) and (3)(b): the bidiagonalisation.\<close>

definition LSQR_bidiag :: "env \<Rightarrow> lsqr \<Rightarrow> lsqr" where
  "LSQR_bidiag e s =
     (let (ax, s) = call_Ax e (lsqr_v s) s;
          s = s\<lparr>lsqr_u := vsub ax (smul (lsqr_alpha s) (lsqr_u s))\<rparr>;
          s = s\<lparr>lsqr_beta := fl_norm (lsqr_u s)\<rparr>;
          s = s\<lparr>lsqr_u := sdiv (lsqr_u s) (lsqr_beta s)\<rparr>;
          (atb, s) = call_Atb e (lsqr_u s) s;
          s = s\<lparr>lsqr_v := vsub atb (smul (lsqr_beta s) (lsqr_v s))\<rparr>;
          s = s\<lparr>lsqr_alpha := fl_norm (lsqr_v s)\<rparr>
      in s\<lparr>lsqr_v := sdiv (lsqr_v s) (lsqr_alpha s)\<rparr>)"

text \<open>Lines 159 to 170, steps (4) and (5): the rotation and the update of \<open>x\<close> and \<open>w\<close>.\<close>

definition LSQR_update :: "lsqr \<Rightarrow> lsqr" where
  "LSQR_update s =
     (let rho = fl_sqrt (sq (lsqr_rhobar s) + sq (lsqr_beta s));
          c = lsqr_rhobar s / rho;
          sn = lsqr_beta s / rho;
          theta = sn * lsqr_alpha s;
          s = s\<lparr>lsqr_rhobar := - c * lsqr_alpha s\<rparr>;
          phi = c * lsqr_phibar s;
          s = s\<lparr>lsqr_phibar := sn * lsqr_phibar s\<rparr>;
          s = s\<lparr>res := vadd (res s) (smul (phi / rho) (lsqr_w s))\<rparr>
      in s\<lparr>lsqr_w := vsub (lsqr_v s) (smul (theta / rho) (lsqr_w s))\<rparr>)"

text \<open>The body of the loop, lines 143 to 176.\<close>

definition LSQR_iter :: "env \<Rightarrow> nat \<Rightarrow> lsqr \<Rightarrow> lsqr" where
  "LSQR_iter e i s =
     (let res_prev = res s;
          s = LSQR_bidiag e s;
          s = LSQR_update s;
          s = record_time e i s
      in measure_quality e res_prev i s)"

text \<open>\<^verbatim>\<open>for i in range(self.niter)\<close>; the method then ends and returns \<^verbatim>\<open>None\<close>.\<close>

function LSQR_loop :: "env \<Rightarrow> nat \<Rightarrow> nat \<Rightarrow> lsqr \<Rightarrow> lsqr" where
  "LSQR_loop e n i s = (if i < n then LSQR_loop e n (Suc i) (LSQR_iter e i s) else s)"
  by pat_completeness auto
termination
  by (relation "measure (\<lambda>(e, n, i, s). n - i)") auto

definition LSQR_run_main_iter :: "env \<Rightarrow> lsqr \<Rightarrow> lsqr" where
  "LSQR_run_main_iter e s = LSQR_loop e (niter s) 0 (start_history s)"

section \<open>LSMR\<close>

record lsmr = recon +
  lsmr_re_init_at_iteration :: nat
  lsmr_u :: vec
  lsmr_beta :: fl
  lsmr_v :: vec
  lsmr_alpha :: fl
  lsmr_alphabar :: fl
  lsmr_zetabar :: fl
  lsmr_rho :: fl
  lsmr_rhobar :: fl
  lsmr_cbar :: fl
  lsmr_sbar :: fl
  lsmr_h :: vec
  lsmr_hbar :: npval
  lsmr_betadd :: fl
  lsmr_betad :: fl
  lsmr_rhod :: fl
  lsmr_tautilda :: fl
  lsmr_thetatilda :: fl
  lsmr_zeta :: fl
  lsmr_d :: fl

text \<open>\<^verbatim>\<open>LSMR.__init__\<close>, lines 193 to 223.\<close>

definition LSMR_init :: "env \<Rightarrow> recon \<Rightarrow> lsmr" where
  "LSMR_init e b =
     (let (ax, b) = call_Ax e (res b) b;
          u = vsub (proj b) ax;
          normr = fl_norm u;
          beta = normr;
          u = sdiv u normr;
          (v, b) = call_Atb e u b;
          alpha = fl_norm v;
          v = sdiv v alpha;
          alphabar = alpha;
          zetabar = alpha * beta;
          rho = 1;
          rhobar = 1;
          cbar = 1;
          sbar = 0;
          h = v;
          hbar = Scalar 0;
          betadd = beta;
          betad = 0;
          rhod = 1;
          tautilda = 0;
          thetatilda = 0;
          zeta = 0;
          d = 0
      in recon.extend b
           (lsmr.fields 0 u beta v alpha alphabar zetabar rho rhobar cbar sbar h hbar
              betadd betad rhod tautilda thetatilda zeta d))"

text \<open>Lines 235 to 242, step (3): the bidiagonalisation.\<close>

definition LSMR_bidiag :: "env \<Rightarrow> lsmr \<Rightarrow> lsmr" where
  "LSMR_bidiag e s =
     (let (ax, s) = call_Ax e (lsmr_v s) s;
          s = s\<lparr>lsmr_u := vsub ax (smul (lsmr_alpha s) (lsmr_u s))\<rparr>;
          s = s\<lparr>lsmr_beta := fl_norm (lsmr_u s)\<rparr>;
          s = s\<lparr>lsmr_u := sdiv (lsmr_u s) (lsmr_beta s)\<rparr>;
          (atb, s) = call_Atb e (lsmr_u s) s;
          s = s\<lparr>lsmr_v := vsub atb (smul (lsmr_beta s) (lsmr_v s))\<rparr>;
          s = s\<lparr>lsmr_alpha := fl_norm (lsmr_v s)\<rparr>
      in s\<lparr>lsmr_v := sdiv (lsmr_v s) (lsmr_alpha s)\<rparr>)"

text \<open>
  Lines 244 to 247, step (4): the locals \<open>alphahat\<close>, \<open>chat\<close> and \<open>shat\<close>.
\<close>

definition LSMR_rotation_hat :: "lsmr \<Rightarrow> fl \<times> fl \<times> fl" where
  "LSMR_rotation_hat s =
     (let alphahat = fl_sqrt (sq (lsmr_alphabar s) + sq (lmbda s));
          chat = lsmr_alphabar s / alphahat;
          shat = lmbda s / alphahat
      in (alphahat, chat, shat))"

text \<open>
  Lines 249 to 255, step (5): the locals \<open>rhopre\<close>, \<open>c\<close>, \<open>s\<close> (here \<open>sn\<close>) and
  \<open>theta\<close>, and the new \<open>rho\<close> and \<open>alphabar\<close>.
\<close>

definition LSMR_rotation :: "fl \<Rightarrow> lsmr \<Rightarrow> (fl \<times> fl \<times> fl \<times> fl) \<times> lsmr" where
  "LSMR_rotation alphahat s =
     (let rhopre = lsmr_rho s;
          s = s\<lparr>lsmr_rho := fl_sqrt (sq alphahat + sq (lsmr_beta s))\<rparr>;
          c = alphahat / lsmr_rho s;
          sn = lsmr_beta s / lsmr_rho s;
          theta = sn * lsmr_alpha s;
          s = s\<lparr>lsmr_alphabar := c * lsmr_alpha s\<rparr>
      in ((rhopre, c, sn, theta), s))"

text \<open>
  Lines 257 to 265, step (6): the locals \<open>thetabar\<close>, \<open>rhobarpre\<close> and \<open>zetapre\<close>, and
  the new \<open>rhobar\<close>, \<open>cbar\<close>, \<open>sbar\<close>, \<open>zeta\<close> and \<open>zetabar\<close>.
\<close>

definition LSMR_rotation_bar :: "fl \<Rightarrow> lsmr \<Rightarrow> (fl \<times> fl \<times> fl) \<times> lsmr" where
  "LSMR_rotation_bar theta s =
     (let thetabar = lsmr_sbar s * lsmr_rho s;
          rhobarpre = lsmr_rhobar s;
          s = s\<lparr>lsmr_rhobar := fl_sqrt (sq (lsmr_cbar s * lsmr_rho s) + sq theta)\<rparr>;
          s = s\<lparr>lsmr_cbar := lsmr_cbar s * lsmr_rho s / lsmr_rhobar s\<rparr>;
          s = s\<lparr>lsmr_sbar := theta / lsmr_rhobar s\<rparr>;
          zetapre = lsmr_zeta s;
          s = s\<lparr>lsmr_zeta := lsmr_cbar s * lsmr_zetabar s\<rparr>;
          s = s\<lparr>lsmr_zetabar := - lsmr_sbar s * lsmr_zetabar s\<rparr>
      in ((thetabar, rhobarpre, zetapre), s))"

text \<open>Lines 267 to 270, step (7): the update of \<open>hbar\<close>, \<open>x\<close> and \<open>h\<close>.\<close>

definition LSMR_update :: "fl \<Rightarrow> fl \<Rightarrow> fl \<Rightarrow> fl \<Rightarrow> lsmr \<Rightarrow> lsmr" where
  "LSMR_update thetabar rhopre rhobarpre theta s =
     (let hbar = vsub_b (lsmr_h s)
                   (bscale (thetabar * lsmr_rho s / (rhopre * rhobarpre)) (lsmr_hbar s));
          s = s\<lparr>lsmr_hbar := NdArray hbar\<rparr>;
          s = s\<lparr>res := vadd (res s) (smul (lsmr_zeta s / (lsmr_rho s * lsmr_rhobar s)) hbar)\<rparr>
      in s\<lparr>lsmr_h := vsub (lsmr_v s) (smul (theta / lsmr_rho s) (lsmr_h s))\<rparr>)"

text \<open>
  Lines 272 to 299, steps (8) to (11): the estimate of the residual norm, stored in slot
  \<open>i\<close> of the history. \<open>betadd\<close> of line 279 is a local variable; the attribute
  \<open>lsmr_betadd\<close> is read in lines 273 and 274.
\<close>

definition LSMR_residual_norm ::
  "nat \<Rightarrow> fl \<Rightarrow> fl \<Rightarrow> fl \<Rightarrow> fl \<Rightarrow> fl \<Rightarrow> fl \<Rightarrow> lsmr \<Rightarrow> lsmr" where
  "LSMR_residual_norm i chat shat c sn thetabar zetapre s =
     (let betaacute = chat * lsmr_betadd s;
          betacheck = - shat * lsmr_betadd s;
          betahat = c * betaacute;
          betadd = - sn * betaacute;
          rhotilda = fl_sqrt (sq (lsmr_rhod s) + sq thetabar);
          ctilda = lsmr_rhod s / rhotilda;
          stilda = thetabar / rhotilda;
          thetatildapre = lsmr_thetatilda s;
          s = s\<lparr>lsmr_thetatilda := stilda * lsmr_rhobar s\<rparr>;
          s = s\<lparr>lsmr_rhod := ctilda * lsmr_rhobar s\<rparr>;
          s = s\<lparr>lsmr_betad := - stilda * lsmr_betad s + ctilda * betahat\<rparr>;
          s = s\<lparr>lsmr_tautilda := (zetapre - thetatildapre * lsmr_tautilda s) / rhotilda\<rparr>;
          taud = (lsmr_zeta s - lsmr_thetatilda s * lsmr_tautilda s) / lsmr_rhod s;
          s = s\<lparr>lsmr_d := lsmr_d s + sq betacheck\<rparr>;
          gamma_var = lsmr_d s + sq (lsmr_betad s - taud) + sq betadd
      in s\<lparr>l2l := (l2l s)[i := fl_sqrt gamma_var]\<rparr>)"

text \<open>The body of the loop, lines 229 to 305.\<close>

definition LSMR_iter :: "env \<Rightarrow> nat \<Rightarrow> lsmr \<Rightarrow> lsmr" where
  "LSMR_iter e i s =
     (let res_prev = res s;
          s = LSMR_bidiag e s;
          (alphahat, chat, shat) = LSMR_rotation_hat s;
          ((rhopre, c, sn, theta), s) = LSMR_rotation alphahat s;
          ((thetabar, rhobarpre, zetapre), s) = LSMR_rotation_bar theta s;
          s = LSMR_update thetabar rhopre rhobarpre theta s;
          s = LSMR_residual_norm i chat shat c sn thetabar zetapre s;
          s = record_time e i s
      in measure_quality e res_prev i s)"

function LSMR_loop :: "env \<Rightarrow> nat \<Rightarrow> nat \<Rightarrow> lsmr \<Rightarrow> lsmr" where
  "LSMR_loop e n i s = (if i < n then LSMR_loop e n (Suc i) (LSMR_iter e i s) else s)"
  by pat_completeness auto
termination
  by (relation "measure (\<lambda>(e, n, i, s). n - i)") auto

definition LSMR_run_main_iter :: "env \<Rightarrow> lsmr \<Rightarrow> lsmr" where
  "LSMR_run_main_iter e s = LSMR_loop e (niter s) 0 (start_history s)"

section \<open>Test problems\<close>

text \<open>
  A problem with one pixel and one detector reading \<open>y\<close>, started from the zero image,
  with \<open>n\<close> iterations requested, and the identity projector paired with a backprojector
  that scales by \<open>k\<close>. For \<open>k = 1\<close> the pair is matched.
\<close>

definition scalar_problem :: "real \<Rightarrow> nat \<Rightarrow> recon" where
  "scalar_problem y n =
     \<lparr>proj = [Fin y], res = [Fin 0], niter = n, verbose = False, Quameasopts = False,
      lmbda = 0, other_attrs = [], l2l = [], avgtime = [], ax_calls = 0, atb_calls = 0\<rparr>"

definition skewed_env :: "real \<Rightarrow> env" where
  "skewed_env k =
     \<lparr>Ax = (\<lambda>x. x), Atb = smul (Fin k), default_timer = real,
      error_measurement = (\<lambda>res_prev res_now i attrs. attrs)\<rparr>"

text \<open>
  The run of CGLS on the reading 1 with the backprojector scaled by \<open>5/4\<close>, five
  iterations requested: \<open>drift_before k\<close> is the object on entry to iteration \<open>k\<close>.
\<close>

definition drift_env :: env where
  "drift_env = skewed_env (5 / 4)"

definition drift_before :: "nat \<Rightarrow> cgls" where
  "drift_before k =
     snd (CGLS_loop drift_env k 0 (start_history (CGLS_init drift_env (scalar_problem 1 5))))"

definition drift_run :: "(py_error + vec option) \<times> cgls" where
  "drift_run = CGLS_run_main_iter drift_env (CGLS_init drift_env (scalar_problem 1 5))"

text \<open>The same problem with the backprojector scaled by 3, three iterations.\<close>

definition steep_env :: env where
  "steep_env = skewed_env 3"

definition steep_run :: "(py_error + vec option) \<times> cgls" where
  "steep_run = CGLS_run_main_iter steep_env (CGLS_init steep_env (scalar_problem 1 3))"

text \<open>A projector that maps every image to zero, as the zero matrix does.\<close>

definition blind_env :: env where
  "blind_env =
     \<lparr>Ax = smul 0, Atb = (\<lambda>y. y), default_timer = real,
      error_measurement = (\<lambda>res_prev res_now i attrs. attrs)\<rparr>"

definition blind_run :: "(py_error + vec option) \<times> cgls" where
  "blind_run = CGLS_run_main_iter blind_env (CGLS_init blind_env (scalar_problem 1 1))"

text \<open>The matched pair on the reading 0: the first step divides zero by zero.\<close>

definition flat_env :: env where
  "flat_env = skewed_env 1"

definition flat_start :: cgls where
  "flat_start = start_history (CGLS_init flat_env (scalar_problem 0 2))"

text \<open>
  A lower bidiagonal matrix as the projector, with its transpose as the backprojector,
  and the reading \<open>(5, 0, 0)\<close>: every norm and every rotation of the first two
  iterations of LSMR is rational.
\<close>

definition dot :: "vec \<Rightarrow> vec \<Rightarrow> fl" where
  "dot a b = foldr (+) (map2 (*) a b) 0"

definition matvec :: "vec list \<Rightarrow> vec \<Rightarrow> vec" where
  "matvec m x = map (\<lambda>row. dot row x) m"

definition bidiag :: "vec list" where
  "bidiag =
     [[Fin (21 / 29), Fin 0, Fin 0],
      [Fin (20 / 29), Fin (29 / 15), Fin 0],
      [Fin 0, Fin (24 / 5), Fin (125 / 96)]]"

definition bidiag_env :: env where
  "bidiag_env =
     \<lparr>Ax = matvec bidiag, Atb = matvec (transpose bidiag), default_timer = real,
      error_measurement = (\<lambda>res_prev res_now i attrs. attrs)\<rparr>"

definition bidiag_problem :: "nat \<Rightarrow> recon" where
  "bidiag_problem n =
     \<lparr>proj = [Fin 5, Fin 0, Fin 0], res = [Fin 0, Fin 0, Fin 0], niter = n,
      verbose = False, Quameasopts = False, lmbda = 0, other_attrs = [], l2l = [],
      avgtime = [], ax_calls = 0, atb_calls = 0\<rparr>"

definition bidiag_run :: "nat \<Rightarrow> lsmr" where
  "bidiag_run n = LSMR_run_main_iter bidiag_env (LSMR_init bidiag_env (bidiag_problem n))"

section \<open>Frame lemmas\<close>

declare CGLS_loop.simps [simp del] LSQR_loop.simps [simp del] LSMR_loop.simps [simp del]

lemma call_Ax_simps [simp]:
  "fst (call_Ax e x s) = Ax e x"
  "snd (call_Ax e x s) = s\<lparr>ax_calls := Suc (ax_calls s)\<rparr>"
  by (simp_all add: call_Ax_def)

lemma call_Atb_simps [simp]:
  "fst (call_Atb e y s) = Atb e y"
  "snd (call_Atb e y s) = s\<lparr>atb_calls := Suc (atb_calls s)\<rparr>"
  by (simp_all add: call_Atb_def)

lemma record_time_frame [simp]:
  "ax_calls (record_time e i s) = ax_calls s"
  "atb_calls (record_time e i s) = atb_calls s"
  "res (record_time e i s) = res s"
  "l2l (record_time e i s) = l2l s"
  by (simp_all add: record_time_def)

lemma measure_quality_frame [simp]:
  "ax_calls (measure_quality e rp i s) = ax_calls s"
  "atb_calls (measure_quality e rp i s) = atb_calls s"
  "res (measure_quality e rp i s) = res s"
  "l2l (measure_quality e rp i s) = l2l s"
  by (simp_all add: measure_quality_def)

lemma start_history_frame [simp]:
  "res (start_history s) = res s"
  "niter (start_history s) = niter s"
  "verbose (start_history s) = verbose s"
  "avgtime (start_history s) = []"
  "length (l2l (start_history s)) = niter s"
  by (simp_all add: start_history_def)

subsection \<open>CGLS\<close>

lemma CGLS_init_frame [simp]:
  "res (CGLS_init e b) = res b"
  "niter (CGLS_init e b) = niter b"
  "verbose (CGLS_init e b) = verbose b"
  by (simp_all add: CGLS_init_def Let_def split_def recon.extend_def)

lemma CGLS_step_frame [simp]:
  "ax_calls (CGLS_after_step e i s) = Suc (ax_calls s)"
  "atb_calls (CGLS_after_step e i s) = atb_calls s"
  "l2l (CGLS_after_step e i s) = l2l s"
  "re_init_at_iteration (CGLS_after_step e i s) = re_init_at_iteration s"
  "res (CGLS_after_step e i s) = vadd (res s) (smul (fst (CGLS_step e i s)) (cgls_p s))"
  by (simp_all add: CGLS_after_step_def CGLS_step_def record_time_def Let_def split_def)

lemma CGLS_residual_frame [simp]:
  "ax_calls (CGLS_residual e i s) = Suc (ax_calls s)"
  "atb_calls (CGLS_residual e i s) = atb_calls s"
  "length (l2l (CGLS_residual e i s)) = length (l2l s)"
  "j \<noteq> i \<Longrightarrow> l2l (CGLS_residual e i s) ! j = l2l s ! j"
  "res (CGLS_residual e i s) = res s"
  "re_init_at_iteration (CGLS_residual e i s) = re_init_at_iteration s"
  by (simp_all add: CGLS_residual_def Let_def split_def)

lemma reinitialise_cgls_frame [simp]:
  "ax_calls (reinitialise_cgls e s) = Suc (ax_calls s)"
  "atb_calls (reinitialise_cgls e s) = Suc (atb_calls s)"
  "l2l (reinitialise_cgls e s) = l2l s"
  "res (reinitialise_cgls e s) = res s"
  by (simp_all add: reinitialise_cgls_def Let_def split_def)

lemma CGLS_restart_frame [simp]:
  "ax_calls (CGLS_restart e i alpha s) = Suc (ax_calls s)"
  "atb_calls (CGLS_restart e i alpha s) = Suc (atb_calls s)"
  "l2l (CGLS_restart e i alpha s) = l2l s"
  by (simp_all add: CGLS_restart_def Let_def)

lemma CGLS_update_frame [simp]:
  "ax_calls (CGLS_update e i rp alpha q s) = ax_calls s"
  "atb_calls (CGLS_update e i rp alpha q s) = Suc (atb_calls s)"
  "l2l (CGLS_update e i rp alpha q s) = l2l s"
  by (simp_all add: CGLS_update_def Let_def split_def)

text \<open>The three ways out of the body of the CGLS loop.\<close>

lemma CGLS_iter_cases:
  "CGLS_iter e i s =
     (case nan_scan (CGLS_dict (CGLS_after_step e i s)) of
        Some item \<Rightarrow> Raise (ValueError_nan item i) (CGLS_after_step e i s)
      | None \<Rightarrow>
          if CGLS_triggered e i s \<and> re_init_at_iteration s + 1 = i
          then Return (res (CGLS_after_step e i s)) (CGLS_residual e i (CGLS_after_step e i s))
          else Continue
                 (CGLS_update e i (res s) (fst (CGLS_step e i s)) (fst (snd (CGLS_step e i s)))
                    (if CGLS_triggered e i s
                     then CGLS_restart e i (fst (CGLS_step e i s))
                            (CGLS_residual e i (CGLS_after_step e i s))
                     else CGLS_residual e i (CGLS_after_step e i s))))"
  by (simp add: CGLS_iter_def CGLS_after_step_def [symmetric] CGLS_triggered_def Let_def
      split_def split: option.splits)






text \<open>The scan finds an attribute exactly when some array among the attributes holds a NaN.\<close>

lemma list_ex_is_nan: "list_ex is_nan a \<longleftrightarrow> NaN \<in> set a"
  by (induction a) (auto elim: is_nan.elims)

lemma holds_nan_iff: "holds_nan v \<longleftrightarrow> (\<exists>a. v = Some (NdArray a) \<and> NaN \<in> set a)"
proof (cases v)
  case None
  then show ?thesis by simp
next
  case (Some w)
  then show ?thesis by (cases w) (auto simp add: list_ex_is_nan)
qed

lemma nan_scan_Some:
  "(\<exists>item. nan_scan d = Some item) \<longleftrightarrow> (\<exists>item v. (item, v) \<in> set d \<and> holds_nan v)"
  by (induction d rule: nan_scan.induct) auto

lemma nan_scan_names: "nan_scan d = Some item \<Longrightarrow> \<exists>v. (item, v) \<in> set d \<and> holds_nan v"
  by (induction d rule: nan_scan.induct) (auto split: if_splits)

subsection \<open>LSQR\<close>

lemma LSQR_init_frame [simp]:
  "res (LSQR_init e b) = res b"
  "niter (LSQR_init e b) = niter b"
  by (simp_all add: LSQR_init_def Let_def split_def recon.extend_def)

lemma LSQR_frame_calls [simp]:
  "ax_calls (LSQR_bidiag e s) = Suc (ax_calls s)"
  "atb_calls (LSQR_bidiag e s) = Suc (atb_calls s)"
  "ax_calls (LSQR_update s) = ax_calls s"
  "atb_calls (LSQR_update s) = atb_calls s"
  by (simp_all add: LSQR_bidiag_def LSQR_update_def Let_def split_def)

lemma LSQR_iter_calls:
  "ax_calls (LSQR_iter e i s) = Suc (ax_calls s)"
  "atb_calls (LSQR_iter e i s) = Suc (atb_calls s)"
  by (simp_all add: LSQR_iter_def Let_def)

subsection \<open>LSMR\<close>

lemma LSMR_init_frame [simp]:
  "res (LSMR_init e b) = res b"
  "niter (LSMR_init e b) = niter b"
  by (simp_all add: LSMR_init_def Let_def split_def recon.extend_def)

lemma LSMR_frame_calls [simp]:
  "ax_calls (LSMR_bidiag e s) = Suc (ax_calls s)"
  "atb_calls (LSMR_bidiag e s) = Suc (atb_calls s)"
  "ax_calls (snd (LSMR_rotation alphahat s)) = ax_calls s"
  "atb_calls (snd (LSMR_rotation alphahat s)) = atb_calls s"
  "ax_calls (snd (LSMR_rotation_bar theta s)) = ax_calls s"
  "atb_calls (snd (LSMR_rotation_bar theta s)) = atb_calls s"
  "ax_calls (LSMR_update thetabar rhopre rhobarpre theta s) = ax_calls s"
  "atb_calls (LSMR_update thetabar rhopre rhobarpre theta s) = atb_calls s"
  "ax_calls (LSMR_residual_norm i chat shat c sn thetabar zetapre s) = ax_calls s"
  "atb_calls (LSMR_residual_norm i chat shat c sn thetabar zetapre s) = atb_calls s"
  by (simp_all add: LSMR_bidiag_def LSMR_rotation_def LSMR_rotation_bar_def LSMR_update_def
      LSMR_residual_norm_def Let_def split_def)

lemma LSMR_iter_calls:
  "ax_calls (LSMR_iter e i s) = Suc (ax_calls s)"
  "atb_calls (LSMR_iter e i s) = Suc (atb_calls s)"
  by (simp_all add: LSMR_iter_def Let_def split_def)

lemma LSMR_frame_betadd [simp]:
  "lsmr_betadd (record_time e i s) = lsmr_betadd s"
  "lsmr_betadd (measure_quality e rp i s) = lsmr_betadd s"
  "lsmr_betadd (start_history s) = lsmr_betadd s"
  "lsmr_betadd (LSMR_bidiag e s) = lsmr_betadd s"
  "lsmr_betadd (snd (LSMR_rotation alphahat s)) = lsmr_betadd s"
  "lsmr_betadd (snd (LSMR_rotation_bar theta s)) = lsmr_betadd s"
  "lsmr_betadd (LSMR_update thetabar rhopre rhobarpre theta s) = lsmr_betadd s"
  "lsmr_betadd (LSMR_residual_norm i chat shat c sn thetabar zetapre s) = lsmr_betadd s"
  by (simp_all add: record_time_def measure_quality_def start_history_def LSMR_bidiag_def
      LSMR_rotation_def LSMR_rotation_bar_def LSMR_update_def LSMR_residual_norm_def
      Let_def split_def)

lemma LSMR_iter_betadd: "lsmr_betadd (LSMR_iter e i s) = lsmr_betadd s"
  by (simp add: LSMR_iter_def Let_def split_def)

lemma LSMR_loop_betadd: "lsmr_betadd (LSMR_loop e n i s) = lsmr_betadd s"
proof (induction e n i s rule: LSMR_loop.induct)
  case (1 e n i s)
  show ?case
  proof (cases "i < n")
    case True
    with "1.IH" show ?thesis
      by (simp add: LSMR_loop.simps [of e n i s] LSMR_iter_betadd)
  next
    case False
    then show ?thesis
      by (simp add: LSMR_loop.simps [of e n i s])
  qed
qed

lemma LSMR_init_betadd:
  "lsmr_betadd (LSMR_init e b) = fl_norm (vsub (proj b) (Ax e (res b)))"
  by (simp add: LSMR_init_def Let_def split_def recon.extend_def lsmr.fields_def)

section \<open>The test problems, evaluated\<close>

lemma fl_norm_single: "fl_norm [Fin x] = Fin \<bar>x\<bar>"
  by (simp add: fl_norm_def zero_fl_def)

lemmas cgls_eval =
  drift_env_def steep_env_def flat_env_def skewed_env_def blind_env_def scalar_problem_def
  start_history_def CGLS_init_def call_Ax_def call_Atb_def vsub_def vadd_def smul_def
  minus_fl_def recon.extend_def cgls.fields_def Let_def CGLS_step_def record_time_def
  CGLS_dict_def recon_dict_def CGLS_residual_def CGLS_diverged_def CGLS_restart_def
  reinitialise_cgls_def CGLS_update_def measure_quality_def CGLS_iter_def
  CGLS_after_step_def CGLS_triggered_def zero_fl_def one_fl_def eval_nat_numeral
  CGLS_run_main_iter_def CGLS_report_def CGLS_loop.simps fl_norm_single

lemma drift_before_2_eq:
  "drift_before 2 =
     \<lparr>proj = [Fin 1], res = [Fin (5 / 6)], niter = 5, verbose = False, Quameasopts = False,
      lmbda = Fin 0, other_attrs = [], l2l = [Fin (1 / 4), Fin (1 / 6), Fin 0, Fin 0, Fin 0],
      avgtime = [1, 1], ax_calls = 5, atb_calls = 3, re_init_at_iteration = 0,
      cgls_r = [Fin (1 / 6)], cgls_p = [Fin (5 / 48)], cgls_gamma = Fin (25 / 576)\<rparr>"
  by (simp add: drift_before_def cgls_eval)

lemma drift_before_3_eq:
  "drift_before 3 =
     \<lparr>proj = [Fin 1], res = [Fin (5 / 6)], niter = 5, verbose = False, Quameasopts = False,
      lmbda = Fin 0, other_attrs = [],
      l2l = [Fin (1 / 4), Fin (1 / 6), Fin (1 / 4), Fin 0, Fin 0],
      avgtime = [1, 1, 1], ax_calls = 8, atb_calls = 5, re_init_at_iteration = 2,
      cgls_r = [Fin (- (1 / 4))], cgls_p = [Fin (5 / 32)], cgls_gamma = Fin (25 / 256)\<rparr>"
  by (simp add: drift_before_def cgls_eval)

lemma drift_triggered_2: "CGLS_triggered drift_env 2 (drift_before 2)"
  unfolding drift_before_2_eq by (simp add: cgls_eval)

lemma drift_iter_2: "CGLS_iter drift_env 2 (drift_before 2) = Continue (drift_before 3)"
  unfolding drift_before_2_eq drift_before_3_eq by (simp add: cgls_eval)

lemma drift_triggered_3: "CGLS_triggered drift_env 3 (drift_before 3)"
  unfolding drift_before_3_eq by (simp add: cgls_eval)

lemma drift_iter_3:
  "CGLS_iter drift_env 3 (drift_before 3) = Return [Fin (35 / 24)] (snd drift_run)"
  unfolding drift_before_3_eq by (simp add: drift_run_def cgls_eval)


lemma drift_reconstructed:
  "CGLS_init drift_env (recon.truncate (drift_before 3)) =
     \<lparr>proj = [Fin 1], res = [Fin (5 / 6)], niter = 5, verbose = False, Quameasopts = False,
      lmbda = Fin 0, other_attrs = [],
      l2l = [Fin (1 / 4), Fin (1 / 6), Fin (1 / 4), Fin 0, Fin 0],
      avgtime = [1, 1, 1], ax_calls = 9, atb_calls = 6, re_init_at_iteration = 0,
      cgls_r = [Fin (1 / 6)], cgls_p = [Fin (5 / 24)], cgls_gamma = Fin (25 / 576)\<rparr>"
  unfolding drift_before_3_eq by (simp add: recon.truncate_def cgls_eval)

lemma steep_run_eq:
  "steep_run =
     (Inr (Some [Fin 9]),
      \<lparr>proj = [Fin 1], res = [Fin 9], niter = 3, verbose = False, Quameasopts = False,
       lmbda = Fin 0, other_attrs = [], l2l = [Fin 2, Fin 8, Fin 0], avgtime = [1, 1],
       ax_calls = 5, atb_calls = 2, re_init_at_iteration = 0, cgls_r = [Fin (- 2)],
       cgls_p = [Fin 6], cgls_gamma = Fin 36\<rparr>)"
  by (simp add: steep_run_def cgls_eval)

lemma blind_run_eq:
  "blind_run =
     (Inr None,
      \<lparr>proj = [Fin 1], res = [PInf], niter = 1, verbose = False, Quameasopts = False,
       lmbda = Fin 0, other_attrs = [], l2l = [NaN], avgtime = [1], ax_calls = 3,
       atb_calls = 2, re_init_at_iteration = 0, cgls_r = [NaN], cgls_p = [NaN],
       cgls_gamma = NaN\<rparr>)"
  by (simp add: blind_run_def cgls_eval fl_norm_def)

lemma flat_iter_0:
  "CGLS_iter flat_env 0 flat_start = Raise (ValueError_nan ''res'' 0) (CGLS_after_step flat_env 0 flat_start)"
  by (simp add: flat_start_def cgls_eval)

lemma flat_after_step:
  "CGLS_dict (CGLS_after_step flat_env 0 flat_start) =
     [(''re_init_at_iteration'', None), (''proj'', Some (NdArray [Fin 0])),
      (''res'', Some (NdArray [NaN])), (''niter'', None), (''verbose'', None),
      (''Quameasopts'', None), (''lmbda'', Some (Scalar (Fin 0))),
      (''__r__'', Some (NdArray [Fin 0])), (''__p__'', Some (NdArray [Fin 0])),
      (''__gamma__'', Some (Scalar (Fin 0))), (''l2l'', Some (NdArray [Fin 0, Fin 0]))]"
  by (simp add: flat_start_def cgls_eval)

lemma sqrt_rational: "0 \<le> y \<Longrightarrow> y * y = x \<Longrightarrow> sqrt x = y"
  by (metis real_sqrt_abs2 abs_of_nonneg)

lemma bidiag_sqrts:
  "sqrt (15625 / 9216) = 125 / 96" "sqrt (169 / 16) = 13 / 4" "sqrt (169 / 9) = 13 / 3"
  "sqrt 25 = 5" "sqrt (25 / 9) = 5 / 3" "sqrt (400 / 841) = 20 / 29"
  "sqrt (441 / 841) = 21 / 29" "sqrt (49 / 25) = 7 / 5" "sqrt (576 / 25) = 24 / 5"
  "sqrt (841 / 225) = 29 / 15"
  by (rule sqrt_rational; simp)+

lemmas lsmr_eval =
  bidiag_run_def bidiag_env_def bidiag_problem_def bidiag_def dot_def matvec_def
  transpose.simps start_history_def LSMR_init_def LSMR_run_main_iter_def LSMR_loop.simps
  LSMR_iter_def LSMR_bidiag_def LSMR_rotation_hat_def LSMR_rotation_def
  LSMR_rotation_bar_def LSMR_update_def LSMR_residual_norm_def call_Ax_def call_Atb_def
  vsub_def vadd_def smul_def sdiv_def minus_fl_def sq_def fl_norm_def recon.extend_def
  lsmr.fields_def Let_def record_time_def measure_quality_def zero_fl_def one_fl_def
  eval_nat_numeral bidiag_sqrts

lemma bidiag_run_1_eq:
  "bidiag_run 1 =
     \<lparr>proj = [Fin 5, Fin 0, Fin 0], res = [Fin (189 / 145), Fin 0, Fin 0], niter = 1,
      verbose = False, Quameasopts = False, lmbda = Fin 0, other_attrs = [],
      l2l = [Fin (sqrt (362896 / 21025))], avgtime = [1], ax_calls = 2, atb_calls = 2,
      lsmr_re_init_at_iteration = 0, lsmr_u = [Fin 0, Fin 1, Fin 0],
      lsmr_beta = Fin (20 / 29), lsmr_v = [Fin 0, Fin 1, Fin 0],
      lsmr_alpha = Fin (29 / 15), lsmr_alphabar = Fin (7 / 5),
      lsmr_zetabar = Fin (- (84 / 29)), lsmr_rho = Fin 1, lsmr_rhobar = Fin (5 / 3),
      lsmr_cbar = Fin (3 / 5), lsmr_sbar = Fin (4 / 5),
      lsmr_h = [Fin (- (4 / 3)), Fin 1, Fin 0], lsmr_hbar = NdArray [Fin 1, Fin 0, Fin 0],
      lsmr_betadd = Fin 5, lsmr_betad = Fin (105 / 29), lsmr_rhod = Fin (5 / 3),
      lsmr_tautilda = Fin 0, lsmr_thetatilda = Fin 0, lsmr_zeta = Fin (63 / 29),
      lsmr_d = Fin 0\<rparr>"
  by (simp add: lsmr_eval cong: let_weak_cong)

lemma bidiag_run_2_eq:
  "bidiag_run 2 =
     \<lparr>proj = [Fin 5, Fin 0, Fin 0],
      res = [Fin (85701 / 24505), Fin (- (4032 / 24505)), Fin 0], niter = 2,
      verbose = False, Quameasopts = False, lmbda = Fin 0, other_attrs = [],
      l2l = [Fin (sqrt (362896 / 21025)), Fin (sqrt (98569 / 4225))], avgtime = [1, 1],
      ax_calls = 3, atb_calls = 3, lsmr_re_init_at_iteration = 0,
      lsmr_u = [Fin 0, Fin 0, Fin 1], lsmr_beta = Fin (24 / 5),
      lsmr_v = [Fin 0, Fin 0, Fin 1], lsmr_alpha = Fin (125 / 96),
      lsmr_alphabar = Fin (35 / 96), lsmr_zetabar = Fin (420 / 377), lsmr_rho = Fin 5,
      lsmr_rhobar = Fin (13 / 4), lsmr_cbar = Fin (12 / 13), lsmr_sbar = Fin (5 / 13),
      lsmr_h = [Fin (1 / 3), Fin (- (1 / 4)), Fin 1],
      lsmr_hbar = NdArray [Fin (- (40 / 3)), Fin 1, Fin 0], lsmr_betadd = Fin 5,
      lsmr_betad = Fin (- (1057 / 377)), lsmr_rhod = Fin (5 / 4),
      lsmr_tautilda = Fin (189 / 377), lsmr_thetatilda = Fin 3,
      lsmr_zeta = Fin (- (1008 / 377)), lsmr_d = Fin 0\<rparr>"
  by (simp add: lsmr_eval cong: let_weak_cong)

lemma bidiag_residual_1:
  "fl_norm (vsub (proj (bidiag_run 1)) (Ax bidiag_env (res (bidiag_run 1)))) =
     Fin (sqrt (362896 / 21025))"
  unfolding bidiag_run_1_eq
  by (simp add: bidiag_env_def bidiag_def dot_def matvec_def vsub_def minus_fl_def
      fl_norm_def zero_fl_def)

lemma bidiag_residual_2:
  "fl_norm (vsub (proj (bidiag_run 2)) (Ax bidiag_env (res (bidiag_run 2)))) =
     Fin (sqrt (1577104 / 142129))"
  unfolding bidiag_run_2_eq
  by (simp add: bidiag_env_def bidiag_def dot_def matvec_def vsub_def minus_fl_def
      fl_norm_def zero_fl_def)

section \<open>The claims\<close>

text \<open>
  C1. The claim: in an iteration \<open>i > 0\<close> of CGLS whose residual norm exceeds the previous
  slot, with no restart at \<open>i - 1\<close>, the solver undoes the step, recomputes \<open>r\<close>, \<open>p\<close> and
  \<open>gamma\<close> from the reverted solution as the constructor does, sets the marker to \<open>i\<close>
  and goes to the next iteration without the updates of lines 86 to 94.
  The code has no \<^verbatim>\<open>continue\<close> after line 84. In iteration 2 of the run below the
  trigger fires and the marker is 0; the step is undone and the marker becomes 2, but
  the object that enters iteration 3 holds \<open>r\<close>, \<open>p\<close> and \<open>gamma\<close> as lines 86 to 94 leave
  them, computed with the \<open>alpha\<close> and \<open>q\<close> of the step that was undone, and not the
  values that the constructor computes from the reverted solution.
\<close>

theorem CGLS_restart_falls_through:
  "CGLS_triggered drift_env 2 (drift_before 2) \<and>
   re_init_at_iteration (drift_before 2) + 1 \<noteq> 2 \<and>
   CGLS_iter drift_env 2 (drift_before 2) = Continue (drift_before 3) \<and>
   re_init_at_iteration (drift_before 3) = 2 \<and>
   res (drift_before 3) = res (drift_before 2) \<and>
   cgls_r (drift_before 3) = [Fin (- (1 / 4))] \<and>
   cgls_r (CGLS_init drift_env (recon.truncate (drift_before 3))) = [Fin (1 / 6)] \<and>
   cgls_p (drift_before 3) = [Fin (5 / 32)] \<and>
   cgls_p (CGLS_init drift_env (recon.truncate (drift_before 3))) = [Fin (5 / 24)] \<and>
   cgls_gamma (drift_before 3) = Fin (25 / 256) \<and>
   cgls_gamma (CGLS_init drift_env (recon.truncate (drift_before 3))) = Fin (25 / 576)"
  unfolding drift_reconstructed
  by (simp add: drift_triggered_2 drift_iter_2) (simp add: drift_before_2_eq drift_before_3_eq)

text \<open>
  C2. The claim: CGLS leaves the loop early exactly when the trigger fires in an iteration
  and a restart was performed in the iteration before; the first trigger of a run never
  ends it.
  The marker starts at 0 (line 33), the value it also takes after a restart in iteration
  0, and line 78 compares \<open>marker + 1\<close> with \<open>i\<close>. In the run below the trigger cannot fire
  in iteration 0, fires for the first time in iteration 1, and the run returns there:
  slot 2 of the history is never written and the marker is still 0.
\<close>

theorem CGLS_first_trigger_exits:
  "\<not> CGLS_triggered steep_env 0 (start_history (CGLS_init steep_env (scalar_problem 1 3))) \<and>
   fst steep_run = Inr (Some [Fin 9]) \<and>
   l2l (snd steep_run) = [Fin 2, Fin 8, Fin 0] \<and>
   re_init_at_iteration (snd steep_run) = 0"
  by (simp add: steep_run_eq) (simp add: CGLS_triggered_def CGLS_diverged_def)




text \<open>
  C4, as stated: after the step of an iteration of CGLS the run aborts exactly when some
  numeric attribute, array or scalar, holds a NaN or an infinity.
  Line 67 tests \<^verbatim>\<open>np.isnan\<close> on arrays only. With the projector that maps every image
  to zero, the first step divides by zero: the solution becomes infinite, the iteration
  does not raise, and the run of one iteration ends normally with an infinite solution.
\<close>

theorem CGLS_inf_not_detected:
  "res (CGLS_after_step blind_env 0 (start_history (CGLS_init blind_env (scalar_problem 1 1))))
     = [PInf] \<and>
   is_inf PInf \<and>
   \<not> raises (CGLS_iter blind_env 0 (start_history (CGLS_init blind_env (scalar_problem 1 1)))) \<and>
   fst blind_run = Inr None \<and>
   res (snd blind_run) = [PInf]"
  by (simp add: blind_run_eq) (simp add: cgls_eval fl_norm_def)

text \<open>
  C4, amended: after the step of an iteration of CGLS the run aborts exactly when some
  attribute of the object that is an array holds a NaN; the error names such an
  attribute and the iteration, and the run returns no value. An infinity, or a NaN in a
  scalar attribute, does not abort the run.
\<close>

theorem CGLS_nan_abort:
  "(raises (CGLS_iter e i s) \<longleftrightarrow>
      (\<exists>item a. (item, Some (NdArray a)) \<in> set (CGLS_dict (CGLS_after_step e i s)) \<and>
         NaN \<in> set a)) \<and>
   (CGLS_iter e i s = Raise err s' \<longrightarrow>
      (\<exists>item a. err = ValueError_nan item i \<and>
         (item, Some (NdArray a)) \<in> set (CGLS_dict (CGLS_after_step e i s)) \<and>
         NaN \<in> set a) \<and>
      (i < n \<longrightarrow> CGLS_loop e n i s = (Inl err, s')))"
proof (intro conjI impI)
  have "raises (CGLS_iter e i s) \<longleftrightarrow>
      (\<exists>item. nan_scan (CGLS_dict (CGLS_after_step e i s)) = Some item)"
    by (simp add: CGLS_iter_cases split: option.splits)
  then show "raises (CGLS_iter e i s) \<longleftrightarrow>
      (\<exists>item a. (item, Some (NdArray a)) \<in> set (CGLS_dict (CGLS_after_step e i s)) \<and>
         NaN \<in> set a)"
    by (simp add: nan_scan_Some holds_nan_iff) blast
next
  assume r: "CGLS_iter e i s = Raise err s'"
  then obtain item where item: "nan_scan (CGLS_dict (CGLS_after_step e i s)) = Some item"
    and err: "err = ValueError_nan item i"
    by (auto simp add: CGLS_iter_cases split: option.splits if_splits)
  from nan_scan_names [OF item] obtain a
    where "(item, Some (NdArray a)) \<in> set (CGLS_dict (CGLS_after_step e i s))" "NaN \<in> set a"
    by (auto simp add: holds_nan_iff)
  with err show "\<exists>item a. err = ValueError_nan item i \<and>
      (item, Some (NdArray a)) \<in> set (CGLS_dict (CGLS_after_step e i s)) \<and> NaN \<in> set a"
    by blast
next
  assume "CGLS_iter e i s = Raise err s'" and "i < n"
  then show "CGLS_loop e n i s = (Inl err, s')"
    by (simp add: CGLS_loop.simps [of e n i s])
qed

theorem CGLS_nan_abort_witness:
  "CGLS_iter flat_env 0 flat_start =
     Raise (ValueError_nan ''res'' 0) (CGLS_after_step flat_env 0 flat_start) \<and>
   raises (CGLS_iter flat_env 0 flat_start) \<and>
   (''res'', Some (NdArray [NaN])) \<in> set (CGLS_dict (CGLS_after_step flat_env 0 flat_start)) \<and>
   (0::nat) < 2 \<and>
   CGLS_loop flat_env 2 0 flat_start =
     (Inl (ValueError_nan ''res'' 0), CGLS_after_step flat_env 0 flat_start)"
  using flat_iter_0
    CGLS_nan_abort [of flat_env 0 flat_start "ValueError_nan ''res'' 0"
      "CGLS_after_step flat_env 0 flat_start" 2]
  by (simp add: flat_after_step)

text \<open>
  C5. The claim: with zero damping, a well-conditioned operator and its exact adjoint, and
  exact arithmetic, the value that LSMR stores in the last slot of the history equals the
  norm of \<open>proj - Forward(res)\<close> for the solution it has reached.
  The recurrence needs \<open>betadd\<close> of the previous iteration in lines 273 and 274, and line
  279 assigns the new value to a local variable. For the bidiagonal operator below, with
  its transpose as the adjoint and damping 0, the estimate after one iteration is the
  norm of the residual, and the estimate after two iterations is not.
\<close>

theorem LSMR_estimate_differs:
  "lmbda (bidiag_problem 2) = 0 \<and>
   l2l (bidiag_run 1) ! 0 =
     fl_norm (vsub (proj (bidiag_run 1)) (Ax bidiag_env (res (bidiag_run 1)))) \<and>
   l2l (bidiag_run 2) ! 1 = Fin (sqrt (98569 / 4225)) \<and>
   fl_norm (vsub (proj (bidiag_run 2)) (Ax bidiag_env (res (bidiag_run 2)))) =
     Fin (sqrt (1577104 / 142129)) \<and>
   l2l (bidiag_run 2) ! 1 \<noteq>
     fl_norm (vsub (proj (bidiag_run 2)) (Ax bidiag_env (res (bidiag_run 2))))"
  unfolding bidiag_residual_1 bidiag_residual_2
  unfolding bidiag_run_1_eq bidiag_run_2_eq
  by (simp add: bidiag_problem_def zero_fl_def)

text \<open>
  C6, as stated: the constructor of LSMR sets \<open>betadd = beta\<close> and every other scalar of
  the chain \<open>(betadd, betad, rhod, tautilda, thetatilda, zeta, d)\<close> to zero.
  Line 219 sets \<open>rhod\<close> to 1.
\<close>

theorem LSMR_init_rhod_counterexample:
  "lsmr_rhod (LSMR_init bidiag_env (bidiag_problem 2)) = 1 \<and>
   lsmr_rhod (LSMR_init bidiag_env (bidiag_problem 2)) \<noteq> 0"
  by (simp add: LSMR_init_def Let_def split_def recon.extend_def lsmr.fields_def
      zero_fl_def one_fl_def)

text \<open>
  C6, amended: the constructor of LSMR sets \<open>alphabar = alpha\<close>, \<open>zetabar = alpha * beta\<close>,
  \<open>rho = rhobar = cbar = 1\<close>, \<open>sbar = 0\<close>, \<open>h = v\<close>, \<open>hbar = 0\<close>, and in the chain
  \<open>betadd = beta\<close>, \<open>rhod = 1\<close> and \<open>betad\<close>, \<open>tautilda\<close>, \<open>thetatilda\<close>, \<open>zeta\<close>, \<open>d\<close> to
  zero; \<open>beta\<close> is the norm of \<open>proj - Forward(res)\<close>.
\<close>

theorem LSMR_init_values:
  "lsmr_beta (LSMR_init e b) = fl_norm (vsub (proj b) (Ax e (res b))) \<and>
   lsmr_alphabar (LSMR_init e b) = lsmr_alpha (LSMR_init e b) \<and>
   lsmr_zetabar (LSMR_init e b) = lsmr_alpha (LSMR_init e b) * lsmr_beta (LSMR_init e b) \<and>
   lsmr_rho (LSMR_init e b) = 1 \<and>
   lsmr_rhobar (LSMR_init e b) = 1 \<and>
   lsmr_cbar (LSMR_init e b) = 1 \<and>
   lsmr_sbar (LSMR_init e b) = 0 \<and>
   lsmr_h (LSMR_init e b) = lsmr_v (LSMR_init e b) \<and>
   lsmr_hbar (LSMR_init e b) = Scalar 0 \<and>
   lsmr_betadd (LSMR_init e b) = lsmr_beta (LSMR_init e b) \<and>
   lsmr_rhod (LSMR_init e b) = 1 \<and>
   lsmr_betad (LSMR_init e b) = 0 \<and>
   lsmr_tautilda (LSMR_init e b) = 0 \<and>
   lsmr_thetatilda (LSMR_init e b) = 0 \<and>
   lsmr_zeta (LSMR_init e b) = 0 \<and>
   lsmr_d (LSMR_init e b) = 0"
  by (simp add: LSMR_init_def Let_def split_def recon.extend_def lsmr.fields_def)

text \<open>
  C7, as stated: every iteration of a solver calls the forward operator once and the
  adjoint once, CGLS calls the forward operator once more, and no iteration of CGLS, a
  restart included, makes more than two forward calls and one adjoint call.
  The restart calls \<^verbatim>\<open>reinitialise_cgls\<close>, which calls both operators: iteration 2 of
  the run below makes three forward calls and two adjoint calls.
\<close>

theorem CGLS_restart_calls_counterexample:
  "CGLS_iter drift_env 2 (drift_before 2) = Continue (drift_before 3) \<and>
   re_init_at_iteration (drift_before 2) = 0 \<and>
   re_init_at_iteration (drift_before 3) = 2 \<and>
   ax_calls (drift_before 3) = ax_calls (drift_before 2) + 3 \<and>
   atb_calls (drift_before 3) = atb_calls (drift_before 2) + 2 \<and>
   \<not> ax_calls (drift_before 3) \<le> ax_calls (drift_before 2) + 2"
  by (simp add: drift_iter_2) (simp add: drift_before_2_eq drift_before_3_eq)

text \<open>
  C7, amended: every iteration of LSQR and of LSMR calls the forward operator once and
  the adjoint once. An iteration of CGLS that reaches the end of the loop body without a
  restart calls the forward operator twice and the adjoint once; one that restarts calls
  the forward operator three times (the step, the residual norm and the
  reinitialisation) and the adjoint at least once; the iteration that ends the run early
  makes two forward calls and no adjoint call, and one that aborts on a NaN makes one
  forward call and no adjoint call.
\<close>

theorem operator_calls_per_iteration:
  "ax_calls (LSQR_iter e i q) = ax_calls q + 1 \<and>
   atb_calls (LSQR_iter e i q) = atb_calls q + 1 \<and>
   ax_calls (LSMR_iter e i m) = ax_calls m + 1 \<and>
   atb_calls (LSMR_iter e i m) = atb_calls m + 1 \<and>
   (case CGLS_iter e i s of
      Continue s' \<Rightarrow>
        if CGLS_triggered e i s
        then ax_calls s' = ax_calls s + 3 \<and> atb_calls s + 1 \<le> atb_calls s'
        else ax_calls s' = ax_calls s + 2 \<and> atb_calls s' = atb_calls s + 1
    | Return x s' \<Rightarrow> ax_calls s' = ax_calls s + 2 \<and> atb_calls s' = atb_calls s
    | Raise err s' \<Rightarrow> ax_calls s' = ax_calls s + 1 \<and> atb_calls s' = atb_calls s)"
  by (simp add: LSQR_iter_calls LSMR_iter_calls CGLS_iter_cases split: option.splits)

theorem operator_calls_per_iteration_witness:
  "ax_calls (LSQR_iter drift_env 2 (LSQR_init drift_env (scalar_problem 1 5))) =
     ax_calls (LSQR_init drift_env (scalar_problem 1 5)) + 1 \<and>
   atb_calls (LSMR_iter drift_env 2 (LSMR_init drift_env (scalar_problem 1 5))) =
     atb_calls (LSMR_init drift_env (scalar_problem 1 5)) + 1 \<and>
   CGLS_triggered drift_env 2 (drift_before 2) \<and>
   CGLS_iter drift_env 2 (drift_before 2) = Continue (drift_before 3) \<and>
   ax_calls (drift_before 3) = ax_calls (drift_before 2) + 3 \<and>
   atb_calls (drift_before 2) + 1 \<le> atb_calls (drift_before 3) \<and>
   CGLS_triggered drift_env 3 (drift_before 3) \<and>
   CGLS_iter drift_env 3 (drift_before 3) = Return [Fin (35 / 24)] (snd drift_run) \<and>
   ax_calls (snd drift_run) = ax_calls (drift_before 3) + 2 \<and>
   atb_calls (snd drift_run) = atb_calls (drift_before 3)"
  using
    operator_calls_per_iteration [of drift_env 2 "LSQR_init drift_env (scalar_problem 1 5)"
      "LSMR_init drift_env (scalar_problem 1 5)" "drift_before 2"]
    operator_calls_per_iteration [of drift_env 3 "LSQR_init drift_env (scalar_problem 1 5)"
      "LSMR_init drift_env (scalar_problem 1 5)" "drift_before 3"]
  by (simp add: drift_triggered_2 drift_iter_2 drift_triggered_3 drift_iter_3)

text \<open>
  C8. With zero iterations requested, \<^verbatim>\<open>run_main_iter\<close> of each solver leaves the
  solution as the constructor of the base class set it, also when the run of CGLS in
  verbose mode ends with an error.
\<close>

theorem zero_iterations_keep_res:
  "res (snd (CGLS_run_main_iter e (CGLS_init e (b\<lparr>niter := 0\<rparr>)))) = res b \<and>
   res (LSQR_run_main_iter e (LSQR_init e (b\<lparr>niter := 0\<rparr>))) = res b \<and>
   res (LSMR_run_main_iter e (LSMR_init e (b\<lparr>niter := 0\<rparr>))) = res b"
  by (simp add: CGLS_run_main_iter_def LSQR_run_main_iter_def LSMR_run_main_iter_def
      CGLS_loop.simps LSQR_loop.simps LSMR_loop.simps CGLS_report_def)

text \<open>
  C9. In verbose mode with zero iterations requested, \<^verbatim>\<open>run_main_iter\<close> of CGLS
  raises \<^verbatim>\<open>ZeroDivisionError\<close>: the list of iteration times is empty when line 101
  divides by its length.
\<close>

theorem CGLS_verbose_zero_iterations_raises:
  "fst (CGLS_run_main_iter e (CGLS_init e (b\<lparr>niter := 0, verbose := True\<rparr>))) =
     Inl ZeroDivisionError"
  by (simp add: CGLS_run_main_iter_def CGLS_loop.simps CGLS_report_def)

text \<open>
  C10. No iteration of LSMR changes the attribute \<open>betadd\<close>: after any number of
  iterations, and at the end of every run, it is the norm of the initial residual that
  the constructor stored.
\<close>

theorem LSMR_betadd_never_updated:
  "lsmr_betadd (LSMR_iter e i s) = lsmr_betadd s \<and>
   lsmr_betadd (LSMR_loop e n i s) = lsmr_betadd s \<and>
   lsmr_betadd (LSMR_init e b) = fl_norm (vsub (proj b) (Ax e (res b))) \<and>
   lsmr_betadd (LSMR_run_main_iter e (LSMR_init e b)) =
     fl_norm (vsub (proj b) (Ax e (res b)))"
  by (simp add: LSMR_iter_betadd LSMR_loop_betadd LSMR_init_betadd LSMR_run_main_iter_def)


end
